theory Spec2Isabelle
  imports Complex_Main "HOL-Library.Sublist" "HOL-Library.AList" "HOL-Library.Multiset"
begin

section \<open>JavaScript values used by the order pipeline\<close>

subsection \<open>Numbers\<close>

text \<open>
  A JavaScript \<^verbatim>\<open>number\<close> is \<^verbatim>\<open>NaN\<close>, an infinity or a finite value. Finite values are
  kept as exact rationals and the operations below are exact: binary rounding, overflow to
  an infinity and the sign of zero are left out. That is what the program computes on
  integers of magnitude below \<open>2^53\<close>, such as item quantities and their sums; on decimal
  amounts each operation of the program also rounds its result, which the section on double
  precision adds. \<^verbatim>\<open>undefined\<close>, where a number is read from a missing property, is \<open>None\<close>
  of an option.
\<close>

datatype number = NaN | Num rat | PosInf | NegInf

fun js_add :: "number \<Rightarrow> number \<Rightarrow> number" where
  "js_add NaN y = NaN"
| "js_add x NaN = NaN"
| "js_add (Num a) (Num b) = Num (a + b)"
| "js_add (Num a) y = y"
| "js_add x (Num b) = x"
| "js_add PosInf PosInf = PosInf"
| "js_add NegInf NegInf = NegInf"
| "js_add PosInf NegInf = NaN"
| "js_add NegInf PosInf = NaN"

fun js_neg :: "number \<Rightarrow> number" where
  "js_neg NaN = NaN"
| "js_neg (Num a) = Num (- a)"
| "js_neg PosInf = NegInf"
| "js_neg NegInf = PosInf"

definition js_sub :: "number \<Rightarrow> number \<Rightarrow> number" where
  "js_sub x y = js_add x (js_neg y)"

definition signed_inf :: "bool \<Rightarrow> number" where
  "signed_inf negative = (if negative then NegInf else PosInf)"

fun js_mul :: "number \<Rightarrow> number \<Rightarrow> number" where
  "js_mul NaN y = NaN"
| "js_mul x NaN = NaN"
| "js_mul (Num a) (Num b) = Num (a * b)"
| "js_mul (Num a) PosInf = (if a = 0 then NaN else signed_inf (a < 0))"
| "js_mul (Num a) NegInf = (if a = 0 then NaN else signed_inf (0 < a))"
| "js_mul PosInf (Num b) = (if b = 0 then NaN else signed_inf (b < 0))"
| "js_mul NegInf (Num b) = (if b = 0 then NaN else signed_inf (0 < b))"
| "js_mul PosInf PosInf = PosInf"
| "js_mul NegInf NegInf = PosInf"
| "js_mul PosInf NegInf = NegInf"
| "js_mul NegInf PosInf = NegInf"

text \<open>Division; a zero divisor is read as positive zero.\<close>

fun js_div :: "number \<Rightarrow> number \<Rightarrow> number" where
  "js_div NaN y = NaN"
| "js_div x NaN = NaN"
| "js_div (Num a) (Num b) =
     (if b = 0 then (if a = 0 then NaN else signed_inf (a < 0)) else Num (a / b))"
| "js_div (Num a) y = Num 0"
| "js_div PosInf (Num b) = signed_inf (b < 0)"
| "js_div NegInf (Num b) = signed_inf (0 \<le> b)"
| "js_div x y = NaN"

definition isNaN :: "number \<Rightarrow> bool" where
  "isNaN x = (x = NaN)"

text \<open>\<^verbatim>\<open>x || 0\<close>: a falsy number (\<^verbatim>\<open>NaN\<close> or zero) is replaced by zero.\<close>

definition or_zero :: "number \<Rightarrow> number" where
  "or_zero x = (if x = NaN \<or> x = Num 0 then Num 0 else x)"

text \<open>\<^verbatim>\<open>v > 0\<close> on a comparator result; false for \<^verbatim>\<open>NaN\<close>.\<close>

fun js_pos :: "number \<Rightarrow> bool" where
  "js_pos (Num a) = (0 < a)"
| "js_pos PosInf = True"
| "js_pos x = False"

text \<open>
  With exact finite values, addition is associative and commutative with unit \<open>0\<close>, which
  gives \<open>sum_list\<close> and \<open>sum_mset\<close> on numbers.
\<close>

instantiation number :: comm_monoid_add
begin

definition zero_number :: number where
  "zero_number = Num 0"

definition plus_number :: "number \<Rightarrow> number \<Rightarrow> number" where
  "plus_number = js_add"

instance
proof
  fix a b c :: number
  show "a + b + c = a + (b + c)"
    unfolding plus_number_def by (cases a; cases b; cases c) simp_all
  show "a + b = b + a"
    unfolding plus_number_def by (cases a; cases b) simp_all
  show "0 + a = a"
    unfolding plus_number_def zero_number_def by (cases a) simp_all
qed

end

text \<open>\<^verbatim>\<open>u + q\<close> where \<open>u\<close> was read from a property that may be missing.\<close>

fun add_to :: "number option \<Rightarrow> number \<Rightarrow> number" where
  "add_to None q = NaN"
| "add_to (Some v) q = v + q"

subsection \<open>Strings\<close>

text \<open>
  Strings are lists of 8-bit characters standing for ASCII text. White space, digits and
  letter case follow ECMAScript on the ASCII range; any other character is an ordinary
  symbol without case.
\<close>

definition isWhite :: "char \<Rightarrow> bool" where
  "isWhite c = (c \<in> set [CHR 0x09, CHR 0x0A, CHR 0x0B, CHR 0x0C, CHR 0x0D, CHR '' ''])"

definition isDigit :: "char \<Rightarrow> bool" where
  "isDigit c = (c \<in> set ''0123456789'')"

definition digitVal :: "char \<Rightarrow> nat" where
  "digitVal c = (case map_of (zip ''0123456789'' [0, 1, 2, 3, 4, 5, 6, 7, 8, 9]) c of
                   Some d \<Rightarrow> d | None \<Rightarrow> 0)"

definition lower_letters :: string where
  "lower_letters = ''abcdefghijklmnopqrstuvwxyz''"

definition upper_letters :: string where
  "upper_letters = ''ABCDEFGHIJKLMNOPQRSTUVWXYZ''"

definition toUpperChar :: "char \<Rightarrow> char" where
  "toUpperChar c = (case map_of (zip lower_letters upper_letters) c of Some u \<Rightarrow> u | None \<Rightarrow> c)"

definition toLowerChar :: "char \<Rightarrow> char" where
  "toLowerChar c = (case map_of (zip upper_letters lower_letters) c of Some l \<Rightarrow> l | None \<Rightarrow> c)"

definition toUpperCase :: "string \<Rightarrow> string" where
  "toUpperCase s = map toUpperChar s"

definition toLowerCase :: "string \<Rightarrow> string" where
  "toLowerCase s = map toLowerChar s"

definition trimStart :: "string \<Rightarrow> string" where
  "trimStart s = dropWhile isWhite s"

definition trim :: "string \<Rightarrow> string" where
  "trim s = rev (dropWhile isWhite (rev (dropWhile isWhite s)))"

definition startsWith :: "string \<Rightarrow> string \<Rightarrow> bool" where
  "startsWith s p = prefix p s"

text \<open>\<^verbatim>\<open>s.includes(sub)\<close>: \<open>sub\<close> occurs in \<open>s\<close> as a contiguous run.\<close>

fun js_includes :: "string \<Rightarrow> string \<Rightarrow> bool" where
  "js_includes [] sub = (sub = [])"
| "js_includes (c # cs) sub = (prefix sub (c # cs) \<or> js_includes cs sub)"

text \<open>
  \<^verbatim>\<open>s.split(sep)\<close> for a non-empty separator: cut at each leftmost occurrence, scanning on
  after the separator; the empty string gives one empty part.
\<close>

fun js_split :: "string \<Rightarrow> string \<Rightarrow> string list" where
  "js_split sep [] = [[]]"
| "js_split sep (c # cs) =
     (if sep \<noteq> [] \<and> prefix sep (c # cs)
      then [] # js_split sep (drop (length sep) (c # cs))
      else (case js_split sep cs of p # ps \<Rightarrow> (c # p) # ps | [] \<Rightarrow> [[c]]))"

fun js_join :: "string \<Rightarrow> string list \<Rightarrow> string" where
  "js_join sep [] = []"
| "js_join sep [x] = x"
| "js_join sep (x # y # ys) = x @ sep @ js_join sep (y # ys)"

definition digits_value :: "string \<Rightarrow> nat" where
  "digits_value ds = foldl (\<lambda>acc c. 10 * acc + digitVal c) 0 ds"

text \<open>Decimal rendering of an array index, as a template literal prints it.\<close>

fun string_of_nat :: "nat \<Rightarrow> string" where
  "string_of_nat n =
     (if n < 10 then [''0123456789'' ! n]
      else string_of_nat (n div 10) @ [''0123456789'' ! (n mod 10)])"

declare string_of_nat.simps [simp del]

subsection \<open>parseInt and parseFloat\<close>

text \<open>
  \<^verbatim>\<open>parseInt(s, 10)\<close>: skip leading white space, read an optional sign, then the longest run
  of decimal digits; \<^verbatim>\<open>NaN\<close> when that run is empty. Whatever follows the digits is ignored.
\<close>

definition split_sign :: "string \<Rightarrow> bool \<times> string" where
  "split_sign t = (case t of
       c # r \<Rightarrow> (if c = CHR ''-'' then (True, r) else if c = CHR ''+'' then (False, r) else (False, t))
     | [] \<Rightarrow> (False, t))"

definition apply_sign :: "bool \<Rightarrow> number \<Rightarrow> number" where
  "apply_sign negative x = (if negative then js_neg x else x)"

definition parseInt :: "string \<Rightarrow> number" where
  "parseInt s =
     (let (negative, r) = split_sign (trimStart s);
          ds = takeWhile isDigit r
      in if ds = [] then NaN
         else apply_sign negative (Num (of_nat (digits_value ds))))"

text \<open>
  \<^verbatim>\<open>parseFloat(s)\<close>: skip leading white space and read the longest prefix that is a decimal
  literal: an optional sign, then \<^verbatim>\<open>Infinity\<close>, or digits with an optional fraction, or a dot
  followed by digits, each with an optional exponent; \<^verbatim>\<open>NaN\<close> when there is no such prefix.
\<close>

definition exponent_part :: "string \<Rightarrow> int" where
  "exponent_part r = (case r of
       c # r1 \<Rightarrow>
         (if c = CHR ''e'' \<or> c = CHR ''E''
          then (let (negative, r2) = split_sign r1; ds = takeWhile isDigit r2
                in if ds = [] then 0
                   else if negative then - int (digits_value ds) else int (digits_value ds))
          else 0)
     | [] \<Rightarrow> 0)"

definition scale10 :: "rat \<Rightarrow> int \<Rightarrow> rat" where
  "scale10 m e = (if 0 \<le> e then m * 10 ^ nat e else m / 10 ^ nat (- e))"

definition unsigned_decimal :: "string \<Rightarrow> number" where
  "unsigned_decimal r =
     (if prefix ''Infinity'' r then PosInf
      else let ip = takeWhile isDigit r;
               r1 = dropWhile isDigit r;
               has_dot = (r1 \<noteq> [] \<and> hd r1 = CHR ''.'');
               fp = (if has_dot then takeWhile isDigit (tl r1) else []);
               r2 = (if has_dot then dropWhile isDigit (tl r1) else r1)
           in if ip = [] \<and> fp = [] then NaN
              else Num (scale10 (of_nat (digits_value ip)
                                 + of_nat (digits_value fp) / 10 ^ length fp)
                                (exponent_part r2)))"

definition parseFloat :: "string \<Rightarrow> number" where
  "parseFloat s =
     (let (negative, r) = split_sign (trimStart s)
      in apply_sign negative (unsigned_decimal r))"

section \<open>csvParser.ts\<close>

subsection \<open>Size and colour vocabulary\<close>

definition SIZE_MAPPING :: "(string \<times> string) list" where
  "SIZE_MAPPING =
     [(''XS'', ''XS''), (''XSMALL'', ''XS''),
      (''S'', ''SMALL''), (''SMALL'', ''SMALL''), (''SM'', ''SMALL''),
      (''M'', ''MEDIUM''), (''MEDIUM'', ''MEDIUM''), (''MD'', ''MEDIUM''),
      (''L'', ''LARGE''), (''LARGE'', ''LARGE''), (''LG'', ''LARGE''),
      (''XL'', ''XL''), (''XLARGE'', ''XL''),
      (''2XL'', ''2XL''), (''XXL'', ''2XL''), (''2X'', ''2XL''),
      (''XXXL'', ''3XL''), (''3XL'', ''3XL''), (''3X'', ''3XL'')]"

definition ORDERED_SIZES :: "string list" where
  "ORDERED_SIZES = [''XS'', ''SMALL'', ''MEDIUM'', ''LARGE'', ''XL'', ''2XL'', ''3XL'']"

text \<open>
  \<^verbatim>\<open>normalizeSize\<close>; \<^verbatim>\<open>null\<close> is \<open>None\<close>. Every value of the table is a non-empty string, so
  the truthiness test on \<^verbatim>\<open>SIZE_MAPPING[upper]\<close> is the test that the key is in the table.
  (The names an object literal inherits all contain lower-case letters, and an upper-cased
  string contains none.)
\<close>

definition normalizeSize :: "string \<Rightarrow> string option" where
  "normalizeSize str =
     (if str = [] then None
      else let upper = toUpperCase str
           in (case map_of SIZE_MAPPING upper of
                 Some v \<Rightarrow> (if v \<noteq> [] then Some v else None)
               | None \<Rightarrow> None))"

definition detectColorFamily :: "string \<Rightarrow> string" where
  "detectColorFamily color =
     (let lower = toLowerCase color
      in if js_includes lower ''black'' then ''black''
         else if js_includes lower ''white'' then ''white''
         else if js_includes lower ''brown'' then ''brown''
         else if js_includes lower ''storm'' then ''storm''
         else if js_includes lower ''blue'' then ''blue''
         else color)"

subsection \<open>parseCSV\<close>

text \<open>
  A row of the orders file. A column the file lacks reads as \<^verbatim>\<open>undefined\<close>, which every use
  below treats exactly as the empty string, so a missing field is the empty string here.
\<close>

record CSVRow =
  Lineitem_quantity :: string
  Lineitem_name :: string
  Name :: string
  Created_at :: string
  Total :: string
  Subtotal :: string

record ParsedItem =
  item_id :: string
  productName :: string
  color :: string
  item_size :: string
  quantity :: number

text \<open>
  \<^verbatim>\<open>new Date(text)\<close> is kept as the text it was built from; reading its time value is left
  to the caller that sorts by date.
\<close>

datatype Date = Date string

record Order =
  order_id :: string
  name :: string
  date :: Date
  total :: number
  subtotal :: number
  shippingCost :: number
  netEarnings :: number

text \<open>Truthiness of a \<^verbatim>\<open>string | null\<close> value.\<close>

definition truthy :: "string option \<Rightarrow> bool" where
  "truthy v = (case v of Some s \<Rightarrow> s \<noteq> [] | None \<Rightarrow> False)"

text \<open>
  Name parsing (the body of \<^verbatim>\<open>if (rawName && !isNaN(quantity))\<close> up to the push): the result
  is \<open>(productName, color, size)\<close>.
\<close>

definition parseItemName :: "string \<Rightarrow> string \<times> string \<times> string" where
  "parseItemName rawName =
     (let parts = js_split '' - '' rawName
      in if 2 \<le> length parts
         then (let suffixText = last parts;
                   product = js_join '' - '' (butlast parts);
                   suffixParts = map trim (js_split ''/'' suffixText)
               in if length suffixParts = 2
                  then (let partA = suffixParts ! 0;
                            partB = suffixParts ! 1;
                            sizeA = normalizeSize partA;
                            sizeB = normalizeSize partB
                        in if truthy sizeA then (product, partB, the sizeA)
                           else if truthy sizeB then (product, partA, the sizeB)
                           else (product, suffixText, ''Unknown''))
                  else (let s = normalizeSize suffixText
                        in if truthy s then (product, ''Standard'', the s)
                           else (product, suffixText, ''One Size'')))
         else (rawName, ''Unknown'', ''Unknown''))"

text \<open>Step 1 of the row callback: the item the row pushes, if any.\<close>

definition parseLineItem :: "nat \<Rightarrow> CSVRow \<Rightarrow> ParsedItem option" where
  "parseLineItem index row =
     (let quantity = parseInt (Lineitem_quantity row);
          rawName = Lineitem_name row
      in if rawName \<noteq> [] \<and> \<not> isNaN quantity
         then (case parseItemName rawName of
                 (product, colour, sz) \<Rightarrow>
                   Some \<lparr> item_id = string_of_nat index @ ''-'' @ rawName,
                          productName = product,
                          color = colour,
                          item_size = sz,
                          quantity = quantity \<rparr>)
         else None)"

text \<open>\<^verbatim>\<open>text || "0"\<close>.\<close>

definition or_zero_text :: "string \<Rightarrow> string" where
  "or_zero_text s = (if s \<noteq> [] then s else ''0'')"

definition makeOrder :: "CSVRow \<Rightarrow> Order" where
  "makeOrder row =
     (let orderName = Name row;
          totalVal = parseFloat (or_zero_text (Total row));
          subtotalVal = parseFloat (or_zero_text (Subtotal row))
      in \<lparr> order_id = orderName,
           name = orderName,
           date = Date (Created_at row),
           total = totalVal,
           subtotal = subtotalVal,
           shippingCost = Num 0,
           netEarnings = totalVal \<rparr>)"

text \<open>
  Step 2 of the row callback. \<open>ordersMap\<close> is the \<^verbatim>\<open>Map\<close> in insertion order; \<^verbatim>\<open>set\<close> on a
  key that is absent appends the entry.
\<close>

definition parseOrderInfo :: "CSVRow \<Rightarrow> (string \<times> Order) list \<Rightarrow> (string \<times> Order) list" where
  "parseOrderInfo row ordersMap =
     (let orderName = Name row
      in if orderName \<noteq> [] \<and> map_of ordersMap orderName = None
         then (if Created_at row \<noteq> []
               then AList.update orderName (makeOrder row) ordersMap
               else ordersMap)
         else ordersMap)"

fun parseRows ::
  "nat \<Rightarrow> CSVRow list \<Rightarrow> ParsedItem list \<times> (string \<times> Order) list
     \<Rightarrow> ParsedItem list \<times> (string \<times> Order) list" where
  "parseRows index [] st = st"
| "parseRows index (row # rows) (items, ordersMap) =
     parseRows (Suc index) rows
       ((case parseLineItem index row of Some item \<Rightarrow> items @ [item] | None \<Rightarrow> items),
        parseOrderInfo row ordersMap)"

definition parseCSV :: "CSVRow list \<Rightarrow> ParsedItem list \<times> Order list" where
  "parseCSV data =
     (case parseRows 0 data ([], []) of (items, ordersMap) \<Rightarrow> (items, map snd ordersMap))"

subsection \<open>parseShippingCSV\<close>

text \<open>
  The two header tests. Letter case is ignored by comparing in lower case; \<^verbatim>\<open>\s*\<close> is a
  run of white space, which is read greedily since no word after it starts with white space.
\<close>

definition matchAt :: "string \<Rightarrow> string \<Rightarrow> string \<Rightarrow> bool" where
  "matchAt a b t = (prefix a t \<and> prefix b (dropWhile isWhite (drop (length a) t)))"

fun searchSpaced :: "string \<Rightarrow> string \<Rightarrow> string \<Rightarrow> bool" where
  "searchSpaced a b [] = matchAt a b []"
| "searchSpaced a b (c # cs) = (matchAt a b (c # cs) \<or> searchSpaced a b cs)"

definition isNameHeader :: "string \<Rightarrow> bool" where
  "isNameHeader h =
     (let l = toLowerCase h
      in searchSpaced ''order'' ''name'' l \<or> searchSpaced ''order'' ''id'' l
         \<or> js_includes l ''name'')"

definition isCostHeader :: "string \<Rightarrow> bool" where
  "isCostHeader h =
     (let l = toLowerCase h
      in searchSpaced ''shipping'' ''charge'' l \<or> js_includes l ''cost''
         \<or> js_includes l ''amount'' \<or> js_includes l ''price'' \<or> js_includes l ''label'')"

text \<open>A shipping row: the columns of one record with their values.\<close>

type_synonym ShippingRow = "(string \<times> string) list"

text \<open>\<^verbatim>\<open>costVal.replace(/[^0-9.-]+/g, "")\<close>.\<close>

definition stripCost :: "string \<Rightarrow> string" where
  "stripCost costVal = filter (\<lambda>c. isDigit c \<or> c = CHR ''.'' \<or> c = CHR ''-'') costVal"

definition normalizeName :: "string \<Rightarrow> string" where
  "normalizeName nameText =
     (let normalizedName = trim nameText
      in if \<not> startsWith normalizedName ''#'' then ''#'' @ normalizedName
         else normalizedName)"

text \<open>The body of the row callback; \<open>costs\<close> is the \<^verbatim>\<open>Map\<close> in insertion order.\<close>

definition shippingRow ::
  "string option \<Rightarrow> string option \<Rightarrow> ShippingRow \<Rightarrow> (string \<times> number) list
     \<Rightarrow> (string \<times> number) list" where
  "shippingRow nameKey costKey row costs =
     (let nameVal = (if truthy nameKey then map_of row (the nameKey) else Some []);
          costVal = (if truthy costKey then map_of row (the costKey) else Some ''0'')
      in if truthy nameVal \<and> truthy costVal
         then (let cost = parseFloat (stripCost (the costVal))
               in if \<not> isNaN cost
                  then AList.update (normalizeName (the nameVal)) cost costs
                  else costs)
         else costs)"

definition parseShippingCSV :: "string list \<Rightarrow> ShippingRow list \<Rightarrow> (string \<times> number) list" where
  "parseShippingCSV headers data =
     (let nameKey = List.find isNameHeader headers;
          costKey = List.find isCostHeader headers
      in foldl (\<lambda>costs row. shippingRow nameKey costKey row costs) [] data)"

subsection \<open>aggregateData\<close>

type_synonym SizeCounts = "(string \<times> number) list"

record AggregatedData =
  products :: "(string \<times> SizeCounts) list"
  colorTotals :: "(string \<times> SizeCounts) list"
  totals :: SizeCounts
  grandTotal :: number
  orders :: "Order list"

text \<open>\<^verbatim>\<open>ORDERED_SIZES.forEach((s) => (m[s] = 0))\<close>.\<close>

definition zeroSizes :: "SizeCounts \<Rightarrow> SizeCounts" where
  "zeroSizes m = foldl (\<lambda>m s. AList.update s (Num 0) m) m ORDERED_SIZES"

text \<open>\<^verbatim>\<open>m[sz] += q\<close>.\<close>

definition addCount :: "string \<Rightarrow> number \<Rightarrow> SizeCounts \<Rightarrow> SizeCounts" where
  "addCount sz q m = AList.update sz (add_to (map_of m sz) q) m"

text \<open>
  The property names every object literal inherits. Reading one of them from a fresh table
  gives a built-in function or object, which is truthy.
\<close>

definition Object_prototype_names :: "string list" where
  "Object_prototype_names =
     [''constructor'', ''__proto__'', ''hasOwnProperty'', ''isPrototypeOf'',
      ''propertyIsEnumerable'', ''toLocaleString'', ''toString'', ''valueOf'',
      ''__defineGetter__'', ''__defineSetter__'', ''__lookupGetter__'', ''__lookupSetter__'']"

text \<open>
  The "Product Row" and "Color Family Row" blocks: create the row with zeroes when
  \<^verbatim>\<open>table[key]\<close> is falsy, then add to its size cell. Under an inherited name the test finds
  the built-in value, no row is created, and the addition lands on that built-in value: the
  table itself stays as it was.
\<close>

definition addToRow ::
  "string \<Rightarrow> string \<Rightarrow> number \<Rightarrow> (string \<times> SizeCounts) list \<Rightarrow> (string \<times> SizeCounts) list" where
  "addToRow key sz q table =
     (case map_of table key of
        Some row \<Rightarrow> AList.update key (addCount sz q row) table
      | None \<Rightarrow>
          (if key \<in> set Object_prototype_names then table
           else AList.update key (addCount sz q (zeroSizes [])) table))"

definition aggregateItem :: "AggregatedData \<Rightarrow> ParsedItem \<Rightarrow> AggregatedData" where
  "aggregateItem acc item =
     (if item_size item \<notin> set ORDERED_SIZES then acc
      else (let rowKey = productName item @ '' - '' @ color item;
                colorFamily = detectColorFamily (color item)
            in acc \<lparr> products := addToRow rowKey (item_size item) (quantity item) (products acc),
                     colorTotals :=
                       addToRow colorFamily (item_size item) (quantity item) (colorTotals acc),
                     totals := addCount (item_size item) (quantity item) (totals acc),
                     grandTotal := grandTotal acc + quantity item \<rparr>))"

definition aggregateData :: "ParsedItem list \<Rightarrow> Order list \<Rightarrow> AggregatedData" where
  "aggregateData items orderList =
     foldl aggregateItem
       \<lparr> products = [], colorTotals = [], totals = zeroSizes [], grandTotal = Num 0,
         orders = orderList \<rparr>
       items"

section \<open>App.tsx: earnings\<close>

datatype SortField = SortDate | SortEarnings

datatype SortDirection = Asc | Desc

record ProcessedOrder = Order +
  shopifyFee :: number
  netAfterFees :: number

text \<open>
  \<^verbatim>\<open>Array.prototype.sort\<close> with a comparator, as a stable insertion sort: an element moves
  behind another only when the comparator is positive (\<^verbatim>\<open>NaN\<close> counts as zero).
\<close>

fun insertSorted :: "('a \<Rightarrow> 'a \<Rightarrow> number) \<Rightarrow> 'a \<Rightarrow> 'a list \<Rightarrow> 'a list" where
  "insertSorted cmp x [] = [x]"
| "insertSorted cmp x (y # ys) =
     (if js_pos (cmp x y) then y # insertSorted cmp x ys else x # y # ys)"

definition js_sort :: "('a \<Rightarrow> 'a \<Rightarrow> number) \<Rightarrow> 'a list \<Rightarrow> 'a list" where
  "js_sort cmp xs = foldr (insertSorted cmp) xs []"

definition processOrder :: "number \<Rightarrow> number \<Rightarrow> Order \<Rightarrow> ProcessedOrder" where
  "processOrder currentShopifyPercent currentShopifyFixed ord =
     (let shopifyFeeVal =
            js_mul (total ord) (js_div currentShopifyPercent (Num 100)) + currentShopifyFixed
      in Order.extend ord
           (ProcessedOrder.fields shopifyFeeVal (js_sub (subtotal ord) shopifyFeeVal)))"

definition compareOrders ::
  "(Date \<Rightarrow> number) \<Rightarrow> SortField \<Rightarrow> SortDirection \<Rightarrow> ProcessedOrder \<Rightarrow> ProcessedOrder \<Rightarrow> number" where
  "compareOrders getTime earningsSortField earningsSortDirection a b =
     (let cmp = (if earningsSortField = SortDate
                 then js_sub (getTime (date a)) (getTime (date b))
                 else js_sub (netAfterFees a) (netAfterFees b))
      in if earningsSortDirection = Asc then cmp else js_neg cmp)"

text \<open>
  \<open>getTime\<close> reads the time value of a date, \<^verbatim>\<open>NaN\<close> for an invalid one; how a date text is
  understood is up to the engine.
\<close>

definition getProcessedOrders ::
  "(Date \<Rightarrow> number) \<Rightarrow> AggregatedData option \<Rightarrow> SortField \<Rightarrow> SortDirection \<Rightarrow> string \<Rightarrow> string
     \<Rightarrow> ProcessedOrder list" where
  "getProcessedOrders getTime data earningsSortField earningsSortDirection shopifyPercent
       shopifyFixed =
     (case data of
        None \<Rightarrow> []
      | Some d \<Rightarrow>
          (let currentShopifyPercent = or_zero (parseFloat shopifyPercent);
               currentShopifyFixed = or_zero (parseFloat shopifyFixed);
               processed = map (processOrder currentShopifyPercent currentShopifyFixed) (orders d)
           in js_sort (compareOrders getTime earningsSortField earningsSortDirection) processed))"

record EarningsStats =
  totalSubtotal :: number
  totalShipping :: number
  totalShopify :: number
  netProfit :: number
  totalBlank :: number

definition getEarningsStats :: "string \<Rightarrow> string \<Rightarrow> ProcessedOrder list \<Rightarrow> EarningsStats" where
  "getEarningsStats shippingCostText blankCosts processed =
     (let currentShippingCost = or_zero (parseFloat shippingCostText);
          currentBlankCosts = or_zero (parseFloat blankCosts);
          totalSubtotalVal = foldl (\<lambda>acc ord. acc + subtotal ord) (Num 0) processed;
          totalShopifyVal = foldl (\<lambda>acc ord. acc + shopifyFee ord) (Num 0) processed;
          netProfitVal =
            js_sub (js_sub (js_sub totalSubtotalVal currentShippingCost) totalShopifyVal)
              currentBlankCosts
      in \<lparr> totalSubtotal = totalSubtotalVal,
           totalShipping = currentShippingCost,
           totalShopify = totalShopifyVal,
           netProfit = netProfitVal,
           totalBlank = currentBlankCosts \<rparr>)"

section \<open>Notions used in the statements and proofs\<close>

text \<open>The orders map holds each order under its own name, once.\<close>

definition keyed_by_name :: "(string \<times> Order) list \<Rightarrow> bool" where
  "keyed_by_name om = (distinct (map fst om) \<and> (\<forall>(k, ord) \<in> set om. name ord = k))"

text \<open>\<^verbatim>\<open>row[key]\<close> as text, a missing column read as the empty string.\<close>

definition cell :: "ShippingRow \<Rightarrow> string \<Rightarrow> string" where
  "cell row key = (case map_of row key of Some v \<Rightarrow> v | None \<Rightarrow> [])"





section \<open>Double precision\<close>









section \<open>Evaluation rules\<close>

lemmas string_eval =
  toUpperCase_def toUpperChar_def toLowerCase_def toLowerChar_def lower_letters_def
  upper_letters_def trim_def trimStart_def isWhite_def isDigit_def startsWith_def

lemmas number_eval =
  parseInt_def parseFloat_def split_sign_def apply_sign_def unsigned_decimal_def
  exponent_part_def scale10_def digits_value_def digitVal_def isNaN_def or_zero_def

section \<open>SizeNormalizer\<close>

lemma normalizeSize_lookup: "normalizeSize s = map_of SIZE_MAPPING (toUpperCase s)"
proof (cases "s = []")
  case True
  then show ?thesis by (simp add: normalizeSize_def toUpperCase_def SIZE_MAPPING_def)
next
  case False
  then show ?thesis
    by (simp add: normalizeSize_def SIZE_MAPPING_def Let_def)
qed

text \<open>
  C6. Whatever the letter case of the token, \<open>normalizeSize\<close> depends only on its upper-case
  form: each of the nineteen synonyms gives its canonical size, and every other token,
  the empty one included, gives \<^verbatim>\<open>null\<close> (no exception is involved).
\<close>

theorem normalizeSize_table:
  "normalizeSize s =
     (let u = toUpperCase s
      in if u \<in> {''XS'', ''XSMALL''} then Some ''XS''
         else if u \<in> {''S'', ''SMALL'', ''SM''} then Some ''SMALL''
         else if u \<in> {''M'', ''MEDIUM'', ''MD''} then Some ''MEDIUM''
         else if u \<in> {''L'', ''LARGE'', ''LG''} then Some ''LARGE''
         else if u \<in> {''XL'', ''XLARGE''} then Some ''XL''
         else if u \<in> {''2XL'', ''XXL'', ''2X''} then Some ''2XL''
         else if u \<in> {''3XL'', ''XXXL'', ''3X''} then Some ''3XL''
         else None)"
  by (simp add: normalizeSize_lookup SIZE_MAPPING_def Let_def)

theorem normalizeSize_table_witness:
  "normalizeSize ''xSmall'' = Some ''XS'' \<and> normalizeSize ''2x'' = Some ''2XL''
   \<and> normalizeSize ''Lg'' = Some ''LARGE'' \<and> normalizeSize ''Navy'' = None
   \<and> normalizeSize '''' = None"
  using normalizeSize_table [of "''xSmall''"] normalizeSize_table [of "''2x''"]
    normalizeSize_table [of "''Lg''"] normalizeSize_table [of "''Navy''"]
    normalizeSize_table [of "''''"]
  by (simp add: string_eval)

section \<open>LineItemParser\<close>

lemma normalizeSize_truthy: "truthy (normalizeSize s) = (normalizeSize s \<noteq> None)"
  by (auto simp: truthy_def normalizeSize_def Let_def split: option.splits)

lemma toUpperCase_slash: "CHR ''/'' \<in> set s \<Longrightarrow> CHR ''/'' \<in> set (toUpperCase s)"
proof -
  assume "CHR ''/'' \<in> set s"
  then have "toUpperChar CHR ''/'' \<in> toUpperChar ` set s" by (rule imageI)
  moreover have "toUpperChar CHR ''/'' = CHR ''/''"
    by (simp add: toUpperChar_def lower_letters_def upper_letters_def)
  ultimately show ?thesis by (simp add: toUpperCase_def)
qed

lemma normalizeSize_slash: "CHR ''/'' \<in> set s \<Longrightarrow> normalizeSize s = None"
proof -
  assume "CHR ''/'' \<in> set s"
  then have "CHR ''/'' \<in> set (toUpperCase s)" by (rule toUpperCase_slash)
  then have "toUpperCase s \<notin> fst ` set SIZE_MAPPING"
    by (auto simp: SIZE_MAPPING_def)
  then show ?thesis
    by (simp add: normalizeSize_lookup map_of_eq_None_iff)
qed

lemma js_split_single: "CHR ''/'' \<notin> set s \<Longrightarrow> js_split ''/'' s = [s]"
  by (induction s) auto

lemma js_split_slash: "2 \<le> length (js_split ''/'' s) \<Longrightarrow> CHR ''/'' \<in> set s"
  using js_split_single [of s] by (cases "CHR ''/'' \<in> set s") auto

lemmas item_eval =
  parseLineItem_def parseItemName_def normalizeSize_def SIZE_MAPPING_def truthy_def
  string_of_nat.simps Let_def

text \<open>
  C3. A name has a suffix when it splits on " - " into at least two segments; the suffix is
  the last one. When the suffix splits on "/" into exactly two trimmed parts, the first
  part that normalizes gives the size and the other part the colour, the first part having
  priority; when neither normalizes, the colour is the whole suffix and the size "Unknown".
\<close>

theorem two_part_suffix:
  assumes "Lineitem_name row \<noteq> []"
    and "\<not> isNaN (parseInt (Lineitem_quantity row))"
    and "parts = js_split '' - '' (Lineitem_name row)"
    and "2 \<le> length parts"
    and "map trim (js_split ''/'' (last parts)) = [partA, partB]"
  shows "\<exists>item. parseLineItem index row = Some item
     \<and> productName item = js_join '' - '' (butlast parts)
     \<and> (case normalizeSize partA of
          Some sizeA \<Rightarrow> item_size item = sizeA \<and> color item = partB
        | None \<Rightarrow>
            (case normalizeSize partB of
               Some sizeB \<Rightarrow> item_size item = sizeB \<and> color item = partA
             | None \<Rightarrow> item_size item = ''Unknown'' \<and> color item = last parts))"
  using assms
  by (auto simp: parseLineItem_def parseItemName_def Let_def normalizeSize_truthy
      split: if_splits option.splits)

theorem two_part_suffix_witness:
  "(\<exists>item. parseLineItem 0 \<lparr> Lineitem_quantity = ''2'',
        Lineitem_name = ''Classic Tee - Navy / Large'', Name = ''#1001'',
        Created_at = ''2025-12-26'', Total = ''50'', Subtotal = ''45'' \<rparr> = Some item
      \<and> productName item = ''Classic Tee'' \<and> item_size item = ''LARGE''
      \<and> color item = ''Navy'')
   \<and> (\<exists>item. parseLineItem 1 \<lparr> Lineitem_quantity = ''1'',
        Lineitem_name = ''Tee - S / M'', Name = ''#1001'',
        Created_at = '''', Total = '''', Subtotal = '''' \<rparr> = Some item
      \<and> productName item = ''Tee'' \<and> item_size item = ''SMALL'' \<and> color item = ''M'')
   \<and> (\<exists>item. parseLineItem 2 \<lparr> Lineitem_quantity = ''1'',
        Lineitem_name = ''Tee - Red / Navy'', Name = ''#1001'',
        Created_at = '''', Total = '''', Subtotal = '''' \<rparr> = Some item
      \<and> productName item = ''Tee'' \<and> item_size item = ''Unknown''
      \<and> color item = ''Red / Navy'')"
  using
    two_part_suffix [of "\<lparr> Lineitem_quantity = ''2'',
        Lineitem_name = ''Classic Tee - Navy / Large'', Name = ''#1001'',
        Created_at = ''2025-12-26'', Total = ''50'', Subtotal = ''45'' \<rparr>"
      "[''Classic Tee'', ''Navy / Large'']" "''Navy''" "''Large''" 0]
    two_part_suffix [of "\<lparr> Lineitem_quantity = ''1'',
        Lineitem_name = ''Tee - S / M'', Name = ''#1001'',
        Created_at = '''', Total = '''', Subtotal = '''' \<rparr>"
      "[''Tee'', ''S / M'']" "''S''" "''M''" 1]
    two_part_suffix [of "\<lparr> Lineitem_quantity = ''1'',
        Lineitem_name = ''Tee - Red / Navy'', Name = ''#1001'',
        Created_at = '''', Total = '''', Subtotal = '''' \<rparr>"
      "[''Tee'', ''Red / Navy'']" "''Red''" "''Navy''" 2]
  by (simp add: number_eval string_eval normalizeSize_def SIZE_MAPPING_def)

text \<open>A name without " - " has no suffix: it is the product name, whatever it contains.\<close>

lemma no_suffix:
  "parseItemName ''Navy / Large'' = (''Navy / Large'', ''Unknown'', ''Unknown'')"
  by (simp add: parseItemName_def)

text \<open>
  C10. When the suffix splits on "/" into three or more parts, the two-part branch is not
  taken; the suffix contains "/" and so does not normalize, and the item gets the whole
  suffix as colour and the size "One Size".
\<close>

theorem many_part_suffix:
  assumes "Lineitem_name row \<noteq> []"
    and "\<not> isNaN (parseInt (Lineitem_quantity row))"
    and "parts = js_split '' - '' (Lineitem_name row)"
    and "2 \<le> length parts"
    and "3 \<le> length (js_split ''/'' (last parts))"
  shows "\<exists>item. parseLineItem index row = Some item
     \<and> color item = last parts \<and> item_size item = ''One Size''"
proof -
  from assms(5) have "CHR ''/'' \<in> set (last parts)"
    by (intro js_split_slash) simp
  then have "normalizeSize (last parts) = None" by (rule normalizeSize_slash)
  with assms show ?thesis
    by (auto simp: parseLineItem_def parseItemName_def Let_def truthy_def
        split: if_splits)
qed

theorem many_part_suffix_witness:
  "\<exists>item. parseLineItem 0 \<lparr> Lineitem_quantity = ''3'',
        Lineitem_name = ''Hoodie - Black / L / Tall'', Name = ''#7'',
        Created_at = '''', Total = '''', Subtotal = '''' \<rparr> = Some item
      \<and> color item = ''Black / L / Tall'' \<and> item_size item = ''One Size''"
  using many_part_suffix [of "\<lparr> Lineitem_quantity = ''3'',
        Lineitem_name = ''Hoodie - Black / L / Tall'', Name = ''#7'',
        Created_at = '''', Total = '''', Subtotal = '''' \<rparr>"
      "[''Hoodie'', ''Black / L / Tall'']" 0]
  by (simp add: number_eval string_eval)

section \<open>Rows that yield no item\<close>





text \<open>Text after a leading integer is ignored, so such a row keeps its item.\<close>

lemma leading_integer_kept:
  "map quantity (fst (parseCSV [\<lparr> Lineitem_quantity = ''12abc'', Lineitem_name = ''Tee'',
       Name = '''', Created_at = '''', Total = '''', Subtotal = '''' \<rparr>,
     \<lparr> Lineitem_quantity = '' 3.7'', Lineitem_name = ''Tee'',
       Name = '''', Created_at = '''', Total = '''', Subtotal = '''' \<rparr>]))
   = [Num 12, Num 3]"
  by (simp add: parseCSV_def item_eval number_eval string_eval)

section \<open>Quantities\<close>






section \<open>OrderExtractor\<close>

lemma parseRows_orders:
  "snd (parseRows i rows (items, om)) = foldl (\<lambda>m r. parseOrderInfo r m) om rows"
  by (induction rows arbitrary: i items om) auto

lemma update_entry:
  "(k', v') \<in> set (AList.update k v al) \<Longrightarrow> (k', v') \<in> set al \<or> (k' = k \<and> v' = v)"
  by (induction al) (auto split: if_splits)

lemma makeOrder_name: "name (makeOrder r) = Name r"
  by (simp add: makeOrder_def Let_def)

lemma parseOrderInfo_keyed: "keyed_by_name om \<Longrightarrow> keyed_by_name (parseOrderInfo r om)"
  unfolding keyed_by_name_def parseOrderInfo_def Let_def
  by (auto simp: distinct_update makeOrder_name dest!: update_entry)

lemma parseOrderInfo_lookup:
  "map_of (parseOrderInfo r om) n =
     (case map_of om n of
        Some ord \<Rightarrow> Some ord
      | None \<Rightarrow>
          (if n \<noteq> [] \<and> Name r = n \<and> Created_at r \<noteq> [] then Some (makeOrder r)
           else None))"
  by (auto simp: parseOrderInfo_def Let_def update_conv' split: option.splits)

lemma orders_keyed:
  "keyed_by_name om \<Longrightarrow> keyed_by_name (foldl (\<lambda>m r. parseOrderInfo r m) om rows)"
  by (induction rows arbitrary: om) (auto simp: parseOrderInfo_keyed)

lemma orders_lookup:
  "map_of (foldl (\<lambda>m r. parseOrderInfo r m) om rows) n =
     (case map_of om n of
        Some ord \<Rightarrow> Some ord
      | None \<Rightarrow>
          (if n = [] then None
           else map_option makeOrder (find (\<lambda>r. Name r = n \<and> Created_at r \<noteq> []) rows)))"
proof (induction rows arbitrary: om)
  case Nil
  show ?case by (simp split: option.splits)
next
  case (Cons r rs)
  show ?case
    by (simp add: Cons.IH parseOrderInfo_lookup split: option.splits)
qed

lemma keyed_filter:
  "keyed_by_name om \<Longrightarrow>
     filter (\<lambda>ord. name ord = n) (map snd om) =
       (case map_of om n of None \<Rightarrow> [] | Some ord \<Rightarrow> [ord])"
proof (induction om)
  case Nil
  show ?case by simp
next
  case (Cons p om)
  obtain k ord where p: "p = (k, ord)" by (cases p)
  from Cons.prems have keyed: "keyed_by_name om" and nm: "name ord = k"
    and fresh: "k \<notin> fst ` set om"
    by (auto simp: keyed_by_name_def p)
  from fresh have "map_of om k = None" by (simp add: map_of_eq_None_iff)
  with Cons.IH [OF keyed] nm show ?case
    by (auto simp: p)
qed

lemmas order_eval =
  parseCSV_def parseOrderInfo_def makeOrder_def or_zero_text_def Let_def

text \<open>
  C2. The orders of one import have pairwise distinct names, and the orders named \<open>n\<close> are:
  none when \<open>n\<close> is empty or no row named \<open>n\<close> has a date; otherwise exactly the order built
  from the first row named \<open>n\<close> whose date field is non-empty, whatever later rows hold.
\<close>

theorem one_order_per_name:
  "distinct (map name (snd (parseCSV rows)))
   \<and> filter (\<lambda>ord. name ord = n) (snd (parseCSV rows)) =
       (if n = [] then []
        else (case find (\<lambda>r. Name r = n \<and> Created_at r \<noteq> []) rows of
                None \<Rightarrow> []
              | Some r \<Rightarrow> [makeOrder r]))"
proof -
  let ?om = "foldl (\<lambda>m r. parseOrderInfo r m) [] rows"
  have orders: "snd (parseCSV rows) = map snd ?om"
    using parseRows_orders [of 0 rows "[]" "[]"]
    by (cases "parseRows 0 rows ([], [])") (simp add: parseCSV_def)
  have keyed: "keyed_by_name ?om"
    by (rule orders_keyed) (simp add: keyed_by_name_def)
  have names: "map name (map snd ?om) = map fst ?om"
    using keyed by (auto simp: keyed_by_name_def)
  have "distinct (map fst ?om)"
    using keyed by (simp add: keyed_by_name_def)
  then have "distinct (map name (snd (parseCSV rows)))"
    unfolding orders names .
  moreover have "filter (\<lambda>ord. name ord = n) (snd (parseCSV rows)) =
       (if n = [] then []
        else (case find (\<lambda>r. Name r = n \<and> Created_at r \<noteq> []) rows of
                None \<Rightarrow> []
              | Some r \<Rightarrow> [makeOrder r]))"
    by (simp add: orders keyed_filter [OF keyed] orders_lookup split: option.splits)
  ultimately show ?thesis by simp
qed

theorem one_order_per_name_witness:
  "map total (filter (\<lambda>ord. name ord = ''#1001'') (snd (parseCSV
     [\<lparr> Lineitem_quantity = ''1'', Lineitem_name = ''Classic Tee - Navy / Large'',
         Name = ''#1001'', Created_at = ''2025-12-26 18:48'', Total = ''50'',
         Subtotal = ''45'' \<rparr>,
      \<lparr> Lineitem_quantity = ''2'', Lineitem_name = ''Classic Tee - Large'',
         Name = ''#1001'', Created_at = '''', Total = '''', Subtotal = '''' \<rparr>,
      \<lparr> Lineitem_quantity = ''1'', Lineitem_name = ''Cap'',
         Name = ''#1001'', Created_at = ''2025-12-27 09:00'', Total = ''99'',
         Subtotal = ''90'' \<rparr>]))) = [Num 50]"
  using one_order_per_name [of
     "[\<lparr> Lineitem_quantity = ''1'', Lineitem_name = ''Classic Tee - Navy / Large'',
         Name = ''#1001'', Created_at = ''2025-12-26 18:48'', Total = ''50'',
         Subtotal = ''45'' \<rparr>,
      \<lparr> Lineitem_quantity = ''2'', Lineitem_name = ''Classic Tee - Large'',
         Name = ''#1001'', Created_at = '''', Total = '''', Subtotal = '''' \<rparr>,
      \<lparr> Lineitem_quantity = ''1'', Lineitem_name = ''Cap'',
         Name = ''#1001'', Created_at = ''2025-12-27 09:00'', Total = ''99'',
         Subtotal = ''90'' \<rparr>]" "''#1001''"]
  by (simp add: makeOrder_def or_zero_text_def Let_def number_eval string_eval)

text \<open>The example of the specification: two rows, one order, total 50.\<close>

lemma shared_name_example:
  "map (\<lambda>ord. (name ord, total ord)) (snd (parseCSV
     [\<lparr> Lineitem_quantity = ''1'', Lineitem_name = ''Classic Tee - Navy / Large'',
         Name = ''#1001'', Created_at = ''2025-12-26 18:48'', Total = ''50'',
         Subtotal = ''45'' \<rparr>,
      \<lparr> Lineitem_quantity = ''2'', Lineitem_name = ''Classic Tee - Large'',
         Name = ''#1001'', Created_at = '''', Total = '''', Subtotal = '''' \<rparr>]))
   = [(''#1001'', Num 50)]"
  by (simp add: order_eval item_eval number_eval string_eval)

section \<open>Unparseable totals\<close>

text \<open>A blank Total or Subtotal field is read as "0".\<close>

lemma blank_total_zero:
  "Total row = [] \<Longrightarrow> total (makeOrder row) = Num 0"
  "Subtotal row = [] \<Longrightarrow> subtotal (makeOrder row) = Num 0"
  by (simp_all add: makeOrder_def or_zero_text_def Let_def number_eval string_eval)

text \<open>
  C8 on the code. Text that is not blank and does not parse reaches \<open>parseFloat\<close> as it
  is: the order's total, subtotal and net earnings are \<^verbatim>\<open>NaN\<close>, not 0.
\<close>

theorem unparseable_total_is_NaN:
  "map (\<lambda>ord. (total ord, subtotal ord, netEarnings ord)) (snd (parseCSV
     [\<lparr> Lineitem_quantity = ''1'', Lineitem_name = ''Classic Tee - Large'',
         Name = ''#1001'', Created_at = ''2025-12-26 18:48'', Total = ''abc'',
         Subtotal = ''n/a'' \<rparr>]))
   = [(NaN, NaN, NaN)]"
  by (simp add: order_eval item_eval number_eval string_eval)

section \<open>ShippingCostResolver\<close>






lemmas shipping_eval =
  isNameHeader_def isCostHeader_def matchAt_def cell_def stripCost_def normalizeName_def Let_def


text \<open>The stored key and the stripped cost text, spelled out.\<close>

lemma normalizeName_cases:
  "normalizeName s = (case trim s of c # cs \<Rightarrow> if c = CHR ''#'' then c # cs else CHR ''#'' # c # cs
                      | [] \<Rightarrow> ''#'')"
  by (simp add: normalizeName_def startsWith_def Let_def split: list.splits)

lemma stripCost_chars: "set (stripCost s) \<subseteq> set ''0123456789.-''"
  by (auto simp: stripCost_def isDigit_def)

text \<open>When no cost column is found, every named row gets the cost "0".\<close>

lemma unresolved_cost_column:
  "parseShippingCSV [''Order name'', ''Carrier'']
       [[(''Order name'', ''1002''), (''Carrier'', ''UPS'')]] = [(''#1002'', Num 0)]"
  by (simp add: parseShippingCSV_def shippingRow_def truthy_def shipping_eval number_eval
      string_eval)

section \<open>Aggregator\<close>




















lemma aggregateData_orders: "orders (foldl aggregateItem acc items) = orders acc"
  by (induction items arbitrary: acc) (simp_all add: aggregateItem_def Let_def)




lemmas number_plus = plus_number_def zero_number_def


text \<open>
  The same input evaluated: the item of size "One Size" is in no table, and the colour
  "constructor", an inherited property name, gets no colour row.
\<close>

lemma aggregate_example:
  "aggregateData
      [\<lparr> item_id = ''0-a'', productName = ''Tee'', color = ''Navy Blue'',
          item_size = ''LARGE'', quantity = Num 2 \<rparr>,
       \<lparr> item_id = ''1-b'', productName = ''Tee'', color = ''constructor'',
          item_size = ''XS'', quantity = Num 3 \<rparr>,
       \<lparr> item_id = ''2-c'', productName = ''Tee'', color = ''Navy Blue'',
          item_size = ''One Size'', quantity = Num 4 \<rparr>,
       \<lparr> item_id = ''3-d'', productName = ''Cap'', color = ''Black'',
          item_size = ''LARGE'', quantity = Num 1 \<rparr>] []
   = \<lparr> products =
         [(''Tee - Navy Blue'',
           [(''XS'', Num 0), (''SMALL'', Num 0), (''MEDIUM'', Num 0), (''LARGE'', Num 2),
            (''XL'', Num 0), (''2XL'', Num 0), (''3XL'', Num 0)]),
          (''Tee - constructor'',
           [(''XS'', Num 3), (''SMALL'', Num 0), (''MEDIUM'', Num 0), (''LARGE'', Num 0),
            (''XL'', Num 0), (''2XL'', Num 0), (''3XL'', Num 0)]),
          (''Cap - Black'',
           [(''XS'', Num 0), (''SMALL'', Num 0), (''MEDIUM'', Num 0), (''LARGE'', Num 1),
            (''XL'', Num 0), (''2XL'', Num 0), (''3XL'', Num 0)])],
       colorTotals =
         [(''blue'',
           [(''XS'', Num 0), (''SMALL'', Num 0), (''MEDIUM'', Num 0), (''LARGE'', Num 2),
            (''XL'', Num 0), (''2XL'', Num 0), (''3XL'', Num 0)]),
          (''black'',
           [(''XS'', Num 0), (''SMALL'', Num 0), (''MEDIUM'', Num 0), (''LARGE'', Num 1),
            (''XL'', Num 0), (''2XL'', Num 0), (''3XL'', Num 0)])],
       totals =
         [(''XS'', Num 3), (''SMALL'', Num 0), (''MEDIUM'', Num 0), (''LARGE'', Num 3),
          (''XL'', Num 0), (''2XL'', Num 0), (''3XL'', Num 0)],
       grandTotal = Num 6, orders = [] \<rparr>"
  by (simp add: aggregateData_def aggregateItem_def addToRow_def addCount_def zeroSizes_def
      ORDERED_SIZES_def Object_prototype_names_def detectColorFamily_def Let_def
      number_plus string_eval)

section \<open>EarningsCalculator\<close>





lemma processOrder_fields:
  "shopifyFee (processOrder p f ord) = js_mul (total ord) (js_div p (Num 100)) + f"
  "netAfterFees (processOrder p f ord)
     = js_sub (subtotal ord) (js_mul (total ord) (js_div p (Num 100)) + f)"
  "subtotal (processOrder p f ord) = subtotal ord"
  "total (processOrder p f ord) = total ord"
  by (simp_all add: processOrder_def Let_def Order.extend_def ProcessedOrder.fields_def
      Order.defs ProcessedOrder.defs)



lemmas earnings_eval =
  js_sub_def signed_inf_def plus_number_def zero_number_def Let_def


text \<open>The fee of one order of total 100 at 2.9 percent plus 0.30, in exact arithmetic.\<close>

lemma shopifyFee_example:
  "map shopifyFee (getProcessedOrders getTime
      (Some \<lparr> products = [], colorTotals = [], totals = [], grandTotal = Num 0,
          orders =
            [\<lparr> order_id = ''#1'', name = ''#1'', date = Date ''2025-12-26'', total = Num 100,
                subtotal = Num 90, shippingCost = Num 0, netEarnings = Num 100 \<rparr>] \<rparr>)
      SortDate Asc ''2.9'' ''0.30'') = [Num (16 / 5)]"
  by (simp add: getProcessedOrders_def js_sort_def processOrder_fields earnings_eval
      number_eval string_eval)

text \<open>A total that is \<^verbatim>\<open>NaN\<close> makes the fee and every batch figure \<^verbatim>\<open>NaN\<close>.\<close>

lemma NaN_total_spreads:
  "(let stats = getEarningsStats ''0'' ''0'' (getProcessedOrders getTime
      (Some \<lparr> products = [], colorTotals = [], totals = [], grandTotal = Num 0,
          orders =
            [\<lparr> order_id = ''#1'', name = ''#1'', date = Date ''2025-12-26'', total = NaN,
                subtotal = NaN, shippingCost = Num 0, netEarnings = NaN \<rparr>] \<rparr>)
      SortDate Asc ''2.9'' ''0.30'')
    in totalSubtotal stats = NaN \<and> totalShopify stats = NaN \<and> netProfit stats = NaN)"
  by (simp add: getProcessedOrders_def getEarningsStats_def js_sort_def processOrder_fields
      earnings_eval number_eval string_eval)

section \<open>The fee example in double precision\<close>










end
